theory Spec2Isabelle
  imports Complex_Main "HOL-Library.AList"
begin

section \<open>Values, exceptions and the objects of the pipeline\<close>

text \<open>
  The website monitor of \<^verbatim>\<open>main.py\<close> has three coroutines: \<^verbatim>\<open>Producer\<close> (the
  Poller) probes a URL and puts a JSON string on an \<^verbatim>\<open>asyncio.Queue\<close>; \<^verbatim>\<open>Consumer\<close>
  (the Relay) takes strings from the queue and sends them to a Kafka topic;
  \<^verbatim>\<open>KConsumer\<close> (the Sink) reads a Kafka topic and inserts one row per message into
  PostgreSQL. \<^verbatim>\<open>main\<close> wires them together and tears everything down.

  The values a Python dictionary or a parsed JSON document holds. Times are the readings
  of one logical clock, in seconds.
\<close>

datatype json =
    JNull
  | JBool bool
  | JInt int
  | JFloat real
  | JStr string
  | JList "json list"
  | JDict "(string \<times> json) list"

text \<open>
  The exceptions the code can meet. In Python 3.8 \<^verbatim>\<open>CancelledError\<close>,
  \<^verbatim>\<open>KeyboardInterrupt\<close> and \<^verbatim>\<open>SystemExit\<close> derive from \<^verbatim>\<open>BaseException\<close> only, so an
  \<^verbatim>\<open>except Exception\<close> clause does not catch them.
\<close>

datatype exn =
    ClientError
  | TimeoutError
  | UnicodeDecodeError
  | JSONDecodeError
  | KeyError string
  | TypeError
  | DatabaseError
  | KafkaError
  | CancelledError
  | KeyboardInterrupt
  | SystemExit

fun is_Exception :: "exn \<Rightarrow> bool" where
  "is_Exception CancelledError = False"
| "is_Exception KeyboardInterrupt = False"
| "is_Exception SystemExit = False"
| "is_Exception _ = True"

text \<open>\<^verbatim>\<open>obj[key]\<close> on a parsed JSON value: only a dictionary can be indexed by a string.\<close>

fun getitem :: "json \<Rightarrow> string \<Rightarrow> exn + json" where
  "getitem (JDict kvs) k = (case map_of kvs k of None \<Rightarrow> Inl (KeyError k) | Some v \<Rightarrow> Inr v)"
| "getitem _ k = Inl TypeError"

subsection \<open>asyncio.Queue\<close>

text \<open>
  \<^verbatim>\<open>asyncio.Queue(maxsize=0)\<close>: a deque of items and a bound; a bound of zero or less
  means no bound. \<^verbatim>\<open>await q.put(x)\<close> waits while the queue is full and \<^verbatim>\<open>await q.get()\<close>
  waits while it is empty: here a call that has to wait returns \<open>None\<close>.
\<close>

record 'a queue =
  maxsize :: int
  items :: "'a list"

definition Queue :: "int \<Rightarrow> 'a queue" where
  "Queue n = \<lparr>maxsize = n, items = []\<rparr>"

definition queue_full :: "'a queue \<Rightarrow> bool" where
  "queue_full qu = (if maxsize qu \<le> 0 then False else int (length (items qu)) \<ge> maxsize qu)"

definition queue_put :: "'a queue \<Rightarrow> 'a \<Rightarrow> 'a queue option" where
  "queue_put qu x = (if queue_full qu then None else Some (qu\<lparr>items := items qu @ [x]\<rparr>))"

definition queue_get :: "'a queue \<Rightarrow> ('a \<times> 'a queue) option" where
  "queue_get qu = (case items qu of [] \<Rightarrow> None | x # xs \<Rightarrow> Some (x, qu\<lparr>items := xs\<rparr>))"

subsection \<open>The world the three tasks share\<close>

text \<open>
  Python objects live in a store and are handled by reference. The two kinds of object
  that matter here are the working dictionary of \<^verbatim>\<open>Producer\<close> and the strings that
  \<^verbatim>\<open>json.dumps\<close> returns; the queue holds references.
\<close>

type_synonym addr = nat

datatype obj = Dict "(string \<times> json) list" | Str string

type_synonym row = "json \<times> json \<times> json \<times> json"

datatype task = Poller | Relay | Sink

datatype resource = KafkaProducer | KafkaConsumer | PgCursor | PgConnection

record world =
  heap :: "addr \<Rightarrow> obj option"
  next_addr :: addr
  q :: "addr queue"
  clock :: real
  broker :: "string \<Rightarrow> string list"
  txn :: "row list"
  tbl :: "row list"
  stdout :: "string list"
  stderr :: "exn list"
  cancelled :: "task list"
  close_calls :: "resource list"

text \<open>
  \<open>broker w t\<close> is the log of the Kafka topic \<open>t\<close>; \<open>txn\<close> holds the rows inserted in
  the open database transaction and \<open>tbl\<close> the committed rows of \<^verbatim>\<open>health_data\<close>;
  \<open>stderr\<close> has one entry per line printed to \<^verbatim>\<open>sys.stderr\<close>, the exception the line
  reports; \<open>cancelled\<close> lists the tasks whose \<^verbatim>\<open>cancel()\<close> was called and
  \<open>close_calls\<close> the resources whose stop or close method was called, both in call
  order. The clock follows the Poller: its probe and its sleep advance it, and the
  pacing sleeps of 0.05 seconds of the other two tasks fall inside them.
\<close>

definition alloc :: "obj \<Rightarrow> world \<Rightarrow> addr \<times> world" where
  "alloc ob w = (next_addr w, w\<lparr>heap := (heap w)(next_addr w \<mapsto> ob), next_addr := Suc (next_addr w)\<rparr>)"

text \<open>\<^verbatim>\<open>d[k] = v\<close>: mutates the dictionary object in place.\<close>

definition setitem :: "addr \<Rightarrow> string \<Rightarrow> json \<Rightarrow> world \<Rightarrow> exn + world" where
  "setitem a k v w =
     (case heap w a of
        Some (Dict kvs) \<Rightarrow> Inr (w\<lparr>heap := (heap w)(a \<mapsto> Dict (AList.update k v kvs))\<rparr>)
      | _ \<Rightarrow> Inl TypeError)"

text \<open>What a task has done when control comes back from it.\<close>

datatype outcome =
    Continues world
  | Raises exn world
  | Suspends world

fun world_of :: "outcome \<Rightarrow> world" where
  "world_of (Continues w) = w"
| "world_of (Raises e w) = w"
| "world_of (Suspends w) = w"

section \<open>Producer: the Poller\<close>

text \<open>
  What one probe meets: a response with its body, status and the seconds it took, or an
  exception out of \<^verbatim>\<open>session.get\<close> or \<^verbatim>\<open>resp.text()\<close> after some seconds.
\<close>

datatype probe =
    Response string int real
  | ProbeError exn real

text \<open>
  One pass through the body of \<^verbatim>\<open>while True\<close> (lines 29 to 41). \<open>dumps\<close> is
  \<^verbatim>\<open>json.dumps\<close>, \<open>health_data\<close> the reference held by the local variable of that name.
  There is no \<^verbatim>\<open>try\<close> in \<^verbatim>\<open>Producer\<close>: an exception leaves the loop.
  \<^verbatim>\<open>asyncio.sleep\<close> returns at once for a delay of zero or less.
\<close>

fun Producer_iter ::
  "((string \<times> json) list \<Rightarrow> string) \<Rightarrow> int \<Rightarrow> addr \<Rightarrow> world \<Rightarrow> probe \<Rightarrow> outcome" where
  "Producer_iter dumps sleep_duration health_data w (ProbeError e dt) =
     Raises e (w\<lparr>clock := clock w + dt\<rparr>)"
| "Producer_iter dumps sleep_duration health_data w (Response resp_text resp_status dt) =
     (let start_time = clock w;
          w1 = w\<lparr>clock := clock w + dt\<rparr>;
          end_time = clock w1
      in case setitem health_data ''timestamp'' (JFloat (clock w1)) w1 of
           Inl e \<Rightarrow> Raises e w1
         | Inr w2 \<Rightarrow>
      (case setitem health_data ''response_data'' (JStr resp_text) w2 of
           Inl e \<Rightarrow> Raises e w2
         | Inr w3 \<Rightarrow>
      (case setitem health_data ''response_status'' (JInt resp_status) w3 of
           Inl e \<Rightarrow> Raises e w3
         | Inr w4 \<Rightarrow>
      (case setitem health_data ''response_time'' (JFloat (end_time - start_time)) w4 of
           Inl e \<Rightarrow> Raises e w4
         | Inr w5 \<Rightarrow>
      (case heap w5 health_data of
           Some (Dict kvs) \<Rightarrow>
             (let (health_str, w6) = alloc (Str (dumps kvs)) w5
              in case queue_put (q w6) health_str of
                   None \<Rightarrow> Suspends w6
                 | Some q' \<Rightarrow>
                     Continues (w6\<lparr>q := q', clock := clock w6 + max 0 (real_of_int sleep_duration)\<rparr>))
         | _ \<Rightarrow> Raises TypeError w5)))))"

text \<open>
  The loop, over the probes the environment answers with. When they are used up the
  task is still in its loop, waiting for the next one.
\<close>

fun Producer_loop ::
  "((string \<times> json) list \<Rightarrow> string) \<Rightarrow> int \<Rightarrow> addr \<Rightarrow> world \<Rightarrow> probe list \<Rightarrow> outcome" where
  "Producer_loop dumps sleep_duration health_data w [] = Continues w"
| "Producer_loop dumps sleep_duration health_data w (p # ps) =
     (case Producer_iter dumps sleep_duration health_data w p of
        Continues w' \<Rightarrow> Producer_loop dumps sleep_duration health_data w' ps
      | r \<Rightarrow> r)"

text \<open>\<^verbatim>\<open>Producer(url, q, sleep_duration)\<close>: \<^verbatim>\<open>health_data = {}\<close>, then the loop.\<close>

definition Producer_start :: "world \<Rightarrow> addr \<times> world" where
  "Producer_start w = alloc (Dict []) w"

definition Producer ::
  "((string \<times> json) list \<Rightarrow> string) \<Rightarrow> string \<Rightarrow> int \<Rightarrow> world \<Rightarrow> probe list \<Rightarrow> outcome" where
  "Producer dumps url sleep_duration w ps =
     (let (health_data, w0) = Producer_start w
      in Producer_loop dumps sleep_duration health_data w0 ps)"

section \<open>Consumer: the Relay\<close>

text \<open>What \<^verbatim>\<open>kproducer.send_and_wait\<close> meets: an acknowledgement or an exception.\<close>

datatype send = Ack | SendError exn

text \<open>
  One pass through the loop of \<^verbatim>\<open>Consumer\<close> (lines 50 to 56): take a reference from
  the queue, print the string, send its bytes to the topic \<^verbatim>\<open>'exercise1'\<close>. A Python
  string is held as its UTF-8 bytes, so \<^verbatim>\<open>str(message).encode()\<close> hands on the same
  characters. The queue only ever holds references to strings; for any other object
  the pass ends with \<^verbatim>\<open>TypeError\<close>. There is no \<^verbatim>\<open>try\<close> here either.
\<close>

definition Consumer_iter :: "world \<Rightarrow> send \<Rightarrow> outcome" where
  "Consumer_iter w sd =
     (case queue_get (q w) of
        None \<Rightarrow> Suspends w
      | Some (message, q') \<Rightarrow>
          (case heap w message of
             Some (Str s) \<Rightarrow>
               (let w1 = w\<lparr>q := q',
                          stdout := stdout w @ [''Message produced from URL health monitor: '' @ s]\<rparr>
                in case sd of
                     SendError e \<Rightarrow> Raises e w1
                   | Ack \<Rightarrow>
                       Continues (w1\<lparr>broker := (broker w1)
                                     (''exercise1'' := broker w1 ''exercise1'' @ [s])\<rparr>))
           | _ \<Rightarrow> Raises TypeError (w\<lparr>q := q'\<rparr>)))"

fun Consumer_loop :: "world \<Rightarrow> send list \<Rightarrow> outcome" where
  "Consumer_loop w [] = Continues w"
| "Consumer_loop w (sd # sds) =
     (case Consumer_iter w sd of
        Continues w' \<Rightarrow> Consumer_loop w' sds
      | r \<Rightarrow> r)"

section \<open>KConsumer: the Sink\<close>

text \<open>
  One message fetched from the topic, with what the database answers while the message
  is handled: the exception \<^verbatim>\<open>pg_cur.execute\<close> raises, if any, and the exception
  \<^verbatim>\<open>pg_con.commit\<close> raises, if any.
\<close>

record delivery =
  msg_value :: string
  execute_raises :: "exn option"
  commit_raises :: "exn option"

text \<open>
  The body of the \<^verbatim>\<open>try\<close> (lines 69 to 80), with the exception that leaves it, if
  any. \<open>loads\<close> is \<^verbatim>\<open>json.loads\<close>. The four subscripts are evaluated in the order of
  the tuple, before \<^verbatim>\<open>execute\<close> is called. An \<^verbatim>\<open>INSERT\<close> that returns adds its row to
  the open transaction; a commit that returns stores the rows of the transaction; a
  commit that raises ends the transaction without storing them.
\<close>

definition sink_unit :: "(string \<Rightarrow> exn + json) \<Rightarrow> world \<Rightarrow> delivery \<Rightarrow> exn option \<times> world" where
  "sink_unit loads w d =
     (case loads (msg_value d) of
        Inl e \<Rightarrow> (Some e, w)
      | Inr json_msg \<Rightarrow>
     (case getitem json_msg ''timestamp'' of
        Inl e \<Rightarrow> (Some e, w)
      | Inr c1 \<Rightarrow>
     (case getitem json_msg ''response_data'' of
        Inl e \<Rightarrow> (Some e, w)
      | Inr c2 \<Rightarrow>
     (case getitem json_msg ''response_status'' of
        Inl e \<Rightarrow> (Some e, w)
      | Inr c3 \<Rightarrow>
     (case getitem json_msg ''response_time'' of
        Inl e \<Rightarrow> (Some e, w)
      | Inr c4 \<Rightarrow>
     (case execute_raises d of
        Some e \<Rightarrow> (Some e, w)
      | None \<Rightarrow>
          (let w1 = w\<lparr>txn := txn w @ [(c1, c2, c3, c4)]\<rparr>
           in case commit_raises d of
                Some e \<Rightarrow> (Some e, w1\<lparr>txn := []\<rparr>)
              | None \<Rightarrow> (None, w1\<lparr>tbl := tbl w1 @ txn w1, txn := []\<rparr>))))))))"

text \<open>
  One message of \<^verbatim>\<open>async for msg in kconsumer\<close> (lines 67 to 82): the print, the
  \<^verbatim>\<open>try\<close>, and the handler of \<^verbatim>\<open>except Exception\<close>, which prints one line to
  \<^verbatim>\<open>sys.stderr\<close> and goes on.
\<close>

definition KConsumer_msg :: "(string \<Rightarrow> exn + json) \<Rightarrow> world \<Rightarrow> delivery \<Rightarrow> outcome" where
  "KConsumer_msg loads w d =
     (let w1 = w\<lparr>stdout := stdout w @ [''AIOKafka Consumer fetched: '' @ msg_value d]\<rparr>
      in case sink_unit loads w1 d of
           (None, w2) \<Rightarrow> Continues w2
         | (Some e, w2) \<Rightarrow>
             (if is_Exception e then Continues (w2\<lparr>stderr := stderr w2 @ [e]\<rparr>)
              else Raises e w2))"




section \<open>main: the Supervisor\<close>

text \<open>
  The world \<^verbatim>\<open>main\<close> sets up (lines 105 to 121): \<^verbatim>\<open>q = asyncio.Queue()\<close>, with the
  default \<^verbatim>\<open>maxsize=0\<close>, an empty store, and the topics and the table as they are
  found.
\<close>

definition main_world :: "(string \<Rightarrow> string list) \<Rightarrow> row list \<Rightarrow> real \<Rightarrow> world" where
  "main_world topics rows now =
     \<lparr>heap = (\<lambda>a. None), next_addr = 0, q = Queue 0, clock = now, broker = topics,
      txn = [], tbl = rows, stdout = [], stderr = [], cancelled = [], close_calls = []\<rparr>"


text \<open>
  One turn of one task, as the event loop schedules them. A task whose \<^verbatim>\<open>cancel()\<close>
  was called gets \<^verbatim>\<open>CancelledError\<close> at its \<^verbatim>\<open>await\<close>, which none of the three
  catches: it takes no further turn. A turn is offered to a task whatever its earlier
  turns did, also after one that raised: every run of the event loop is a run of
  \<open>sys_step\<close>, and what holds of all runs of \<open>sys_step\<close> holds of the program.
\<close>

inductive sys_step ::
  "((string \<times> json) list \<Rightarrow> string) \<Rightarrow> (string \<Rightarrow> exn + json) \<Rightarrow> int \<Rightarrow> addr \<Rightarrow> world \<Rightarrow> world \<Rightarrow> bool"
  for dumps loads sleep_duration health_data where
  poll: "Poller \<notin> set (cancelled w) \<Longrightarrow>
         sys_step dumps loads sleep_duration health_data w
           (world_of (Producer_iter dumps sleep_duration health_data w p))"
| relay: "Relay \<notin> set (cancelled w) \<Longrightarrow>
         sys_step dumps loads sleep_duration health_data w (world_of (Consumer_iter w sd))"
| sink: "Sink \<notin> set (cancelled w) \<Longrightarrow>
         sys_step dumps loads sleep_duration health_data w (world_of (KConsumer_msg loads w d))"

text \<open>
  The handler of \<^verbatim>\<open>except KeyboardInterrupt\<close> (lines 132 to 136): two loops of
  \<^verbatim>\<open>cancel()\<close> calls with no \<^verbatim>\<open>await\<close> between them, over \<^verbatim>\<open>producers\<close> and
  \<^verbatim>\<open>consumers\<close> as lines 123 to 125 build them.
\<close>

definition producers :: "task list" where
  "producers = [Poller]"

definition consumers :: "task list" where
  "consumers = [Relay, Sink]"

definition cancel :: "world \<Rightarrow> task \<Rightarrow> world" where
  "cancel w t = w\<lparr>cancelled := cancelled w @ [t]\<rparr>"

definition main_except :: "world \<Rightarrow> world" where
  "main_except w = foldl cancel (foldl cancel w producers) consumers"

text \<open>
  The \<^verbatim>\<open>finally\<close> block (lines 138 to 141): four calls in sequence, not guarded.
  \<open>closes r\<close> is the exception the call on \<open>r\<close> raises, if any; the first one that
  raises leaves the block.
\<close>

fun close_seq :: "(resource \<Rightarrow> exn option) \<Rightarrow> resource list \<Rightarrow> world \<Rightarrow> exn option \<times> world" where
  "close_seq closes [] w = (None, w)"
| "close_seq closes (r # rs) w =
     (let w1 = w\<lparr>close_calls := close_calls w @ [r]\<rparr>
      in case closes r of
           Some e \<Rightarrow> (Some e, w1)
         | None \<Rightarrow> close_seq closes rs w1)"

definition main_finally :: "(resource \<Rightarrow> exn option) \<Rightarrow> world \<Rightarrow> exn option \<times> world" where
  "main_finally closes w = close_seq closes [KafkaProducer, KafkaConsumer, PgCursor, PgConnection] w"

text \<open>
  What \<^verbatim>\<open>main\<close> does when the \<^verbatim>\<open>try\<close> body (line 128, waiting for the Poller, which
  never returns) raises \<open>e\<close>: the handler if \<open>e\<close> is \<^verbatim>\<open>KeyboardInterrupt\<close>, then the
  \<^verbatim>\<open>finally\<close> block. The result is the exception that leaves \<^verbatim>\<open>main\<close>, if any.
\<close>

definition main_handle :: "(resource \<Rightarrow> exn option) \<Rightarrow> exn \<Rightarrow> world \<Rightarrow> exn option \<times> world" where
  "main_handle closes e w =
     (let w1 = (if e = KeyboardInterrupt then main_except w else w)
      in case main_finally closes w1 of
           (Some e', w2) \<Rightarrow> (Some e', w2)
         | (None, w2) \<Rightarrow> (if e = KeyboardInterrupt then None else Some e, w2))"

section \<open>The queue between the Poller and the Relay\<close>



section \<open>Invariants\<close>


text \<open>
  What holds of the store in every world the pipeline reaches: the working dictionary
  is a dictionary allocated earlier, and every reference in the queue is an earlier
  allocation, is not the dictionary, and holds a string.
\<close>

definition refs_ok :: "addr \<Rightarrow> world \<Rightarrow> bool" where
  "refs_ok d w \<longleftrightarrow>
     (\<exists>kvs. heap w d = Some (Dict kvs)) \<and> d < next_addr w \<and>
     (\<forall>a\<in>set (items (q w)). a < next_addr w \<and> a \<noteq> d \<and> (\<exists>s. heap w a = Some (Str s)))"

text \<open>From \<open>w\<close> to \<open>w'\<close> no object allocated in \<open>w\<close>, the dictionary \<open>d\<close> apart, was written.\<close>

definition frame :: "addr \<Rightarrow> world \<Rightarrow> world \<Rightarrow> bool" where
  "frame d w w' \<longleftrightarrow>
     next_addr w \<le> next_addr w' \<and> (\<forall>a. a < next_addr w \<and> a \<noteq> d \<longrightarrow> heap w' a = heap w a)"


section \<open>Properties of the queue\<close>


text \<open>
  C3 (as the code has it). The queue \<^verbatim>\<open>main\<close> creates has \<^verbatim>\<open>maxsize\<close> 0, which for
  \<^verbatim>\<open>asyncio.Queue\<close> means no bound: whatever records \<open>xs\<close> are pending, a put does not
  wait, and it appends the new record behind them, so that none of the pending ones is
  dropped or overwritten.
\<close>

theorem main_queue_never_suspends:
  "maxsize (q (main_world topics rows now)) = 0 \<and>
   queue_put ((q (main_world topics rows now))\<lparr>items := xs\<rparr>) x =
     Some ((q (main_world topics rows now))\<lparr>items := xs @ [x]\<rparr>)"
  by (simp add: main_world_def Queue_def queue_put_def queue_full_def)

text \<open>
  C3 as stated fails: there is no number \<open>k\<close> of pending records at which a put on the
  queue of \<^verbatim>\<open>main\<close> waits.
\<close>

theorem main_queue_bound_counterexample:
  "\<not> (\<exists>k. \<forall>xs. length xs = k \<longrightarrow>
         queue_put ((q (main_world (\<lambda>t. []) [] 0))\<lparr>items := xs\<rparr>) (0::addr) = None)"
  by (simp add: main_world_def Queue_def queue_put_def queue_full_def Ex_list_of_length)





section \<open>Properties of the Poller\<close>


lemma Producer_loop_append:
  "Producer_loop dumps sd d w (ps @ qs) =
     (case Producer_loop dumps sd d w ps of
        Continues w1 \<Rightarrow> Producer_loop dumps sd d w1 qs
      | Raises e w1 \<Rightarrow> Raises e w1
      | Suspends w1 \<Rightarrow> Suspends w1)"
  by (induction ps arbitrary: w) (auto split: outcome.splits)





text \<open>
  C1 (as the code has it). When a probe raises \<open>e\<close> (anything but the interrupt), the
  exception leaves \<^verbatim>\<open>Producer\<close>: the task ends with \<open>e\<close>, whatever probes might have
  followed; the queue is as it was before the probe, with no record for it; and
  \<^verbatim>\<open>main\<close>, which waits for the task, ends with an exception too.
\<close>

theorem probe_failure_ends_poller:
  assumes "Producer dumps url sleep_duration w ps = Continues w1"
      and "e \<noteq> KeyboardInterrupt"
  shows "Producer dumps url sleep_duration w (ps @ ProbeError e dt # rest) =
           Raises e (w1\<lparr>clock := clock w1 + dt\<rparr>) \<and>
         q (w1\<lparr>clock := clock w1 + dt\<rparr>) = q w1 \<and>
         fst (main_handle closes e (w1\<lparr>clock := clock w1 + dt\<rparr>)) \<noteq> None"
proof -
  obtain d w0 where st: "Producer_start w = (d, w0)"
    by (cases "Producer_start w")
  from assms(1) st have run: "Producer_loop dumps sleep_duration d w0 ps = Continues w1"
    by (simp add: Producer_def)
  have a: "Producer dumps url sleep_duration w (ps @ ProbeError e dt # rest) =
           Raises e (w1\<lparr>clock := clock w1 + dt\<rparr>)"
    using st run by (simp add: Producer_def Producer_loop_append)
  have b: "fst (main_handle closes e w') \<noteq> None" for w'
    using assms(2) by (simp add: main_handle_def split: prod.splits option.splits)
  show ?thesis using a b by simp
qed

theorem probe_failure_ends_poller_witness:
  "Producer (\<lambda>kvs. ''{}'') ''http://site'' 5 (main_world (\<lambda>t. []) [] 100) [] =
     Continues (snd (Producer_start (main_world (\<lambda>t. []) [] 100))) \<and>
   ClientError \<noteq> KeyboardInterrupt \<and>
   Producer (\<lambda>kvs. ''{}'') ''http://site'' 5 (main_world (\<lambda>t. []) [] 100)
      ([] @ ProbeError ClientError 3 # [Response ''ok'' 200 1]) =
     Raises ClientError ((snd (Producer_start (main_world (\<lambda>t. []) [] 100)))\<lparr>clock := 103\<rparr>)"
proof -
  let ?w0 = "snd (Producer_start (main_world (\<lambda>t. []) [] 100))"
  have r: "Producer (\<lambda>kvs. ''{}'') ''http://site'' 5 (main_world (\<lambda>t. []) [] 100) [] =
             Continues ?w0"
    by (simp add: Producer_def Producer_start_def alloc_def)
  have n: "ClientError \<noteq> KeyboardInterrupt" by simp
  have c: "clock ?w0 = 100" by (simp add: Producer_start_def alloc_def main_world_def)
  show ?thesis
    using r n c probe_failure_ends_poller [OF r n, of 3 "[Response ''ok'' 200 1]" "\<lambda>r. None"]
    by simp
qed

text \<open>
  C1 as stated fails: the first probe is refused and a good answer would follow, yet
  the Poller ends with the exception of the first probe and the queue has no record.
\<close>

theorem probe_failure_counterexample:
  "(case Producer (\<lambda>kvs. ''{}'') ''http://site'' 5 (main_world (\<lambda>t. []) [] 100)
           [ProbeError ClientError 3, Response ''ok'' 200 1] of
      Raises e w \<Rightarrow> e = ClientError \<and> items (q w) = []
    | _ \<Rightarrow> False)"
  by (simp add: Producer_def Producer_start_def alloc_def main_world_def Queue_def)

section \<open>Properties of the Supervisor\<close>

lemma close_seq_calls:
  "close_seq closes rs w = (r, w') \<Longrightarrow>
   close_calls w' = close_calls w @ takeWhile (\<lambda>x. closes x = None) rs
                      @ take 1 (dropWhile (\<lambda>x. closes x = None) rs) \<and>
   r = (case dropWhile (\<lambda>x. closes x = None) rs of [] \<Rightarrow> None | x # xs \<Rightarrow> closes x) \<and>
   stderr w' = stderr w \<and> q w' = q w \<and> broker w' = broker w \<and> cancelled w' = cancelled w
   \<and> heap w' = heap w"
proof (induction rs arbitrary: w)
  case Nil
  then show ?case by auto
next
  case (Cons x rs)
  show ?case
  proof (cases "closes x")
    case None
    with Cons.prems have "close_seq closes rs (w\<lparr>close_calls := close_calls w @ [x]\<rparr>) = (r, w')"
      by (simp add: Let_def)
    from Cons.IH [OF this] None show ?thesis by simp
  next
    case (Some e)
    with Cons.prems show ?thesis by (auto simp: Let_def)
  qed
qed

text \<open>
  C7 (as the code has it). The \<^verbatim>\<open>finally\<close> block calls the four closures in the order
  Kafka producer, Kafka consumer, cursor, connection, up to and including the first one
  that raises: the calls made are those that return, followed by the first that raises
  if there is one. That exception leaves the block, so it is raised and not logged:
  nothing is written to \<^verbatim>\<open>sys.stderr\<close>. The closures after it are not called.
\<close>

theorem teardown_stops_at_first_failure:
  "close_calls (snd (main_finally closes w)) =
     close_calls w
       @ takeWhile (\<lambda>x. closes x = None) [KafkaProducer, KafkaConsumer, PgCursor, PgConnection]
       @ take 1 (dropWhile (\<lambda>x. closes x = None) [KafkaProducer, KafkaConsumer, PgCursor, PgConnection]) \<and>
   fst (main_finally closes w) =
     (case dropWhile (\<lambda>x. closes x = None) [KafkaProducer, KafkaConsumer, PgCursor, PgConnection] of
        [] \<Rightarrow> None | x # xs \<Rightarrow> closes x) \<and>
   stderr (snd (main_finally closes w)) = stderr w"
  using close_seq_calls [of closes "[KafkaProducer, KafkaConsumer, PgCursor, PgConnection]" w
      "fst (main_finally closes w)" "snd (main_finally closes w)"]
  by (simp add: main_finally_def)

text \<open>
  C7 as stated fails: when stopping the Kafka producer raises, the exception leaves the
  block, no other closure is attempted (the database connection is not closed) and
  nothing is logged.
\<close>

theorem teardown_counterexample:
  "main_finally (\<lambda>r. if r = KafkaProducer then Some KafkaError else None) (main_world (\<lambda>t. []) [] 0) =
     (Some KafkaError, (main_world (\<lambda>t. []) [] 0)\<lparr>close_calls := [KafkaProducer]\<rparr>) \<and>
   PgConnection \<notin> set (close_calls ((main_world (\<lambda>t. []) [] 0)\<lparr>close_calls := [KafkaProducer]\<rparr>)) \<and>
   stderr ((main_world (\<lambda>t. []) [] 0)\<lparr>close_calls := [KafkaProducer]\<rparr>) = []"
  by (simp add: main_finally_def main_world_def)




section \<open>Properties of the Relay\<close>



section \<open>Properties of the Sink\<close>











section \<open>Immutability of enqueued records\<close>

lemma sink_unit_frame:
  "heap (snd (sink_unit loads w dl)) = heap w \<and> q (snd (sink_unit loads w dl)) = q w \<and>
   next_addr (snd (sink_unit loads w dl)) = next_addr w"
  by (auto simp: sink_unit_def Let_def split: sum.splits option.splits)

lemma KConsumer_msg_frame:
  "heap (world_of (KConsumer_msg loads w dl)) = heap w \<and>
   q (world_of (KConsumer_msg loads w dl)) = q w \<and>
   next_addr (world_of (KConsumer_msg loads w dl)) = next_addr w"
proof -
  let ?w1 = "w\<lparr>stdout := stdout w @ [''AIOKafka Consumer fetched: '' @ msg_value dl]\<rparr>"
  obtain r w2 where u: "sink_unit loads ?w1 dl = (r, w2)" by (cases "sink_unit loads ?w1 dl")
  with sink_unit_frame [of loads ?w1 dl]
  have "heap w2 = heap w \<and> q w2 = q w \<and> next_addr w2 = next_addr w" by simp
  with u show ?thesis by (simp add: KConsumer_msg_def Let_def split: option.splits)
qed

lemma Consumer_iter_frame:
  "heap (world_of (Consumer_iter w sd)) = heap w \<and>
   next_addr (world_of (Consumer_iter w sd)) = next_addr w \<and>
   set (items (q (world_of (Consumer_iter w sd)))) \<subseteq> set (items (q w))"
  by (auto simp: Consumer_iter_def queue_get_def Let_def
      split: option.splits list.splits obj.splits send.splits)

lemma Producer_iter_frame:
  assumes "refs_ok d w"
  shows "refs_ok d (world_of (Producer_iter dumps sd d w p)) \<and>
         frame d w (world_of (Producer_iter dumps sd d w p))"
proof (cases p)
  case (ProbeError e dt)
  with assms show ?thesis by (simp add: refs_ok_def frame_def)
next
  case (Response b st dt)
  from assms obtain kvs where h: "heap w d = Some (Dict kvs)" and lt: "d < next_addr w"
    by (auto simp: refs_ok_def)
  from assms have qs: "\<forall>a\<in>set (items (q w)). a < next_addr w \<and> a \<noteq> d \<and> (\<exists>s. heap w a = Some (Str s))"
    by (simp add: refs_ok_def)
  show ?thesis
    using Response h lt qs
    by (auto simp: setitem_def alloc_def Let_def queue_put_def refs_ok_def frame_def)
qed

lemma sys_step_frame:
  assumes "sys_step dumps loads sd d w w'" "refs_ok d w"
  shows "refs_ok d w' \<and> frame d w w'"
  using assms
proof (induction rule: sys_step.induct)
  case (poll w p)
  then show ?case using Producer_iter_frame by blast
next
  case (relay w s)
  with Consumer_iter_frame [of w s] show ?case
    by (auto simp: refs_ok_def frame_def)
next
  case (sink w dl)
  with KConsumer_msg_frame [of loads w dl] show ?case
    by (auto simp: refs_ok_def frame_def)
qed

lemma sys_run_frame:
  assumes "(sys_step dumps loads sd d)\<^sup>*\<^sup>* w w'" "refs_ok d w"
  shows "refs_ok d w' \<and> frame d w w'"
  using assms
proof (induction rule: rtranclp_induct)
  case base
  then show ?case by (simp add: frame_def)
next
  case (step y z)
  then have a: "refs_ok d y" "frame d w y" by auto
  from sys_step_frame [OF step.hyps(2) a(1)] have b: "refs_ok d z" "frame d y z" by auto
  from a(2) b(2) have "frame d w z" by (auto simp: frame_def)
  with b(1) show ?case by simp
qed

lemma Producer_start_refs_ok:
  "Producer_start (main_world topics rows now) = (d, w0) \<Longrightarrow> refs_ok d w0"
  by (auto simp: Producer_start_def alloc_def main_world_def refs_ok_def Queue_def)

text \<open>
  C9. In the pipeline of \<^verbatim>\<open>main\<close>, however the turns of the three tasks interleave: a
  reference that is in the queue in some reachable world \<open>w\<close> refers to a string, and in
  every world \<open>w'\<close> reached later, after any further passes of the Poller (which write
  to its working dictionary), of the Relay and of the Sink, it refers to the same
  string.
\<close>

theorem enqueued_record_immutable:
  assumes "Producer_start (main_world topics rows now) = (health_data, w0)"
      and "(sys_step dumps loads sleep_duration health_data)\<^sup>*\<^sup>* w0 w"
      and "a \<in> set (items (q w))"
      and "(sys_step dumps loads sleep_duration health_data)\<^sup>*\<^sup>* w w'"
  shows "\<exists>s. heap w a = Some (Str s) \<and> heap w' a = Some (Str s)"
proof -
  have ok: "refs_ok health_data w"
    using sys_run_frame [OF assms(2) Producer_start_refs_ok [OF assms(1)]] by simp
  with assms(3) obtain s where s: "heap w a = Some (Str s)" and lt: "a < next_addr w"
    and ne: "a \<noteq> health_data"
    by (auto simp: refs_ok_def)
  have "frame health_data w w'" using sys_run_frame [OF assms(4) ok] by simp
  with lt ne have "heap w' a = heap w a" by (simp add: frame_def)
  with s show ?thesis by simp
qed

theorem enqueued_record_immutable_witness:
  "(let dumps = (\<lambda>kvs. case map_of kvs ''response_data'' of Some (JStr s) \<Rightarrow> s | _ \<Rightarrow> []);
        loads = (\<lambda>s. Inl JSONDecodeError);
        w0 = snd (Producer_start (main_world (\<lambda>t. []) [] 0));
        w1 = world_of (Producer_iter dumps 5 0 w0 (Response ''up'' 200 1));
        w2 = world_of (Producer_iter dumps 5 0 w1 (Response ''down'' 503 2))
    in Producer_start (main_world (\<lambda>t. []) [] 0) = (0, w0) \<and>
       (sys_step dumps loads 5 0)\<^sup>*\<^sup>* w0 w1 \<and>
       1 \<in> set (items (q w1)) \<and>
       (sys_step dumps loads 5 0)\<^sup>*\<^sup>* w1 w2 \<and>
       heap w1 1 = Some (Str ''up'') \<and> heap w2 1 = Some (Str ''up'') \<and>
       heap w2 2 = Some (Str ''down'') \<and> heap w1 0 \<noteq> heap w2 0)"
proof -
  let ?dumps = "\<lambda>kvs. case map_of kvs ''response_data'' of Some (JStr s) \<Rightarrow> s | _ \<Rightarrow> []"
  let ?loads = "\<lambda>s::string. (Inl JSONDecodeError :: exn + json)"
  let ?w0 = "snd (Producer_start (main_world (\<lambda>t. []) [] 0))"
  let ?w1 = "world_of (Producer_iter ?dumps 5 0 ?w0 (Response ''up'' 200 1))"
  let ?w2 = "world_of (Producer_iter ?dumps 5 0 ?w1 (Response ''down'' 503 2))"
  have st: "Producer_start (main_world (\<lambda>t. []) [] 0) = (0, ?w0)"
    by (simp add: Producer_start_def alloc_def main_world_def)
  have c0: "Poller \<notin> set (cancelled ?w0)"
    by (simp add: Producer_start_def alloc_def main_world_def)
  have i1: "items (q ?w1) = [1]" and h1: "heap ?w1 1 = Some (Str ''up'')"
    and c1: "Poller \<notin> set (cancelled ?w1)"
    by (simp_all add: Producer_start_def main_world_def Queue_def setitem_def alloc_def Let_def
        queue_put_def queue_full_def)
  have s1: "sys_step ?dumps ?loads 5 0 ?w0 ?w1"
    using sys_step.poll [OF c0] .
  have s2: "sys_step ?dumps ?loads 5 0 ?w1 ?w2"
    using sys_step.poll [OF c1] .
  have r1: "(sys_step ?dumps ?loads 5 0)\<^sup>*\<^sup>* ?w0 ?w1" using s1 by blast
  have r2: "(sys_step ?dumps ?loads 5 0)\<^sup>*\<^sup>* ?w1 ?w2" using s2 by blast
  have m: "1 \<in> set (items (q ?w1))" using i1 by simp
  have h2: "heap ?w2 2 = Some (Str ''down'')" and d: "heap ?w1 0 \<noteq> heap ?w2 0"
    by (simp_all add: Producer_start_def main_world_def Queue_def setitem_def alloc_def Let_def
        queue_put_def queue_full_def)
  from enqueued_record_immutable [OF st r1 m r2] h1
  have "heap ?w2 1 = Some (Str ''up'')" by simp
  with st r1 m r2 h1 h2 d show ?thesis by (simp add: Let_def)
qed

end
